theory Spec2Isabelle
  imports Main "HOL-Library.Sublist"
begin

section \<open>Python strings\<close>

text \<open>
  A Python \<open>str\<close> is a sequence of Unicode code points. The chunker tests for the
  bullet glyph U+2022 and strips Unicode whitespace, so a code point is a natural
  number here and not an 8-bit \<open>char\<close>. \<open>ustr\<close> turns an ASCII literal into such a string.
\<close>

type_synonym pystr = "nat list"

definition ustr :: "string \<Rightarrow> pystr" where
  "ustr s = map of_char s"

text \<open>\<open>str(n)\<close> and the format specs \<open>{n}\<close>, \<open>{n:04d}\<close> for integers.\<close>

fun str_nat :: "nat \<Rightarrow> pystr" where
  "str_nat n = (if n < 10 then [48 + n] else str_nat (n div 10) @ [48 + n mod 10])"

declare str_nat.simps [simp del]

definition str_int :: "int \<Rightarrow> pystr" where
  "str_int i = (if i < 0 then 45 # str_nat (nat (- i)) else str_nat (nat i))"

definition fmt_04d :: "nat \<Rightarrow> pystr" where
  "fmt_04d n = replicate (4 - length (str_nat n)) 48 @ str_nat n"

text \<open>\<open>'\n'.join(xs)\<close>\<close>

fun join_nl :: "pystr list \<Rightarrow> pystr" where
  "join_nl [] = []"
| "join_nl [x] = x"
| "join_nl (x # y # ys) = x @ 10 # join_nl (y # ys)"

text \<open>\<open>t.startswith(p)\<close> and \<open>p in t\<close>\<close>

definition startswith :: "pystr \<Rightarrow> pystr \<Rightarrow> bool" where
  "startswith t p = (take (length p) t = p)"

fun contains :: "pystr \<Rightarrow> pystr \<Rightarrow> bool" where
  "contains [] p = (p = [])"
| "contains (x # xs) p = (startswith (x # xs) p \<or> contains xs p)"

text \<open>
  \<open>str.isspace\<close> for one code point, which is also the class \<open>\s\<close> of \<open>re\<close> on a
  \<open>str\<close> pattern: the characters of category Zs or of bidirectional class WS, B or S.
\<close>

definition isspace :: "nat \<Rightarrow> bool" where
  "isspace c = ((9 \<le> c \<and> c \<le> 13) \<or> (28 \<le> c \<and> c \<le> 32) \<or> c = 133 \<or> c = 160
     \<or> c = 5760 \<or> (8192 \<le> c \<and> c \<le> 8202) \<or> c = 8232 \<or> c = 8233 \<or> c = 8239
     \<or> c = 8287 \<or> c = 12288)"

definition strip :: "pystr \<Rightarrow> pystr" where
  "strip s = rev (dropWhile isspace (rev (dropWhile isspace s)))"

section \<open>The chunker (scripts/chunker.py)\<close>

text \<open>
  \<open>ClauseAwareChunker\<close>: the two configured integers and the two collaborators the
  class calls and the repository does not define, the tokenizer (\<open>count_tokens\<close> is
  \<open>len(self.encoder.encode(text))\<close>, a length) and the class \<open>\d\<close> of the regular
  expression engine (the Unicode decimal digits).
\<close>

record chunker =
  target_size :: int
  overlap :: int
  count_tokens :: "pystr \<Rightarrow> nat"
  re_digit :: "nat \<Rightarrow> bool"

text \<open>
  A chunk is a dict; its keys \<open>section\<close> and \<open>text\<close> are the fields
  \<open>chunk_section\<close> and \<open>chunk_text\<close>. The key \<open>is_premium_table\<close> is absent
  (\<open>None\<close>) until \<open>filter_premium_tables\<close> sets it.
\<close>

record chunk =
  chunk_id :: pystr
  chunk_section :: pystr
  chunk_text :: pystr
  token_count :: nat
  clause_index :: pystr
  is_premium_table :: "bool option"

record section_data =
  sec_section :: pystr
  sec_text :: pystr

text \<open>The local variables of \<open>create_chunks\<close>.\<close>

record pack_state =
  chunks :: "chunk list"
  id_counter :: nat
  current_chunk :: "pystr list"
  current_tokens :: nat

text \<open>The dict appended to \<open>chunks\<close>, at both places of \<open>create_chunks\<close>.\<close>

definition new_chunk :: "chunker \<Rightarrow> nat \<Rightarrow> pystr \<Rightarrow> pystr list \<Rightarrow> int \<Rightarrow> int \<Rightarrow> chunk" where
  "new_chunk K cid section_name buf lo hi =
     (let joined = join_nl buf in
      \<lparr>chunk_id = ustr ''chunk_'' @ fmt_04d cid,
       chunk_section = section_name,
       chunk_text = joined,
       token_count = count_tokens K joined,
       clause_index = str_int lo @ ustr ''-'' @ str_int hi,
       is_premium_table = None\<rparr>)"

text \<open>The test that closes the current chunk.\<close>

definition closes :: "chunker \<Rightarrow> pack_state \<Rightarrow> nat \<Rightarrow> bool" where
  "closes K st clause_tokens =
     (int (current_tokens st + clause_tokens) > target_size K \<and> current_chunk st \<noteq> [])"

text \<open>The body of the loop \<open>for i, clause in enumerate(clauses)\<close>.\<close>

definition pack_step :: "chunker \<Rightarrow> pystr \<Rightarrow> nat \<Rightarrow> pystr \<Rightarrow> pack_state \<Rightarrow> pack_state" where
  "pack_step K section_name i clause st =
     (let clause_tokens = count_tokens K clause in
      if closes K st clause_tokens then
        let c = new_chunk K (id_counter st) section_name (current_chunk st)
                  (int i - int (length (current_chunk st))) (int i - 1);
            st' = st\<lparr>chunks := chunks st @ [c], id_counter := id_counter st + 1\<rparr>
        in if overlap K > 0 \<and> length (current_chunk st) > 0 then
             st'\<lparr>current_chunk := [last (current_chunk st), clause],
                 current_tokens := count_tokens K (join_nl [last (current_chunk st), clause])\<rparr>
           else
             st'\<lparr>current_chunk := [clause], current_tokens := clause_tokens\<rparr>
      else
        st\<lparr>current_chunk := current_chunk st @ [clause],
           current_tokens := current_tokens st + clause_tokens\<rparr>)"

fun pack_loop :: "chunker \<Rightarrow> pystr \<Rightarrow> nat \<Rightarrow> pystr list \<Rightarrow> pack_state \<Rightarrow> pack_state" where
  "pack_loop K section_name i [] st = st"
| "pack_loop K section_name i (clause # rest) st =
     pack_loop K section_name (Suc i) rest (pack_step K section_name i clause st)"

text \<open>\<open># Save last chunk of section\<close>; \<open>n\<close> is \<open>len(clauses)\<close>.\<close>

definition flush :: "chunker \<Rightarrow> pystr \<Rightarrow> nat \<Rightarrow> pack_state \<Rightarrow> pack_state" where
  "flush K section_name n st =
     (if current_chunk st \<noteq> [] then
        st\<lparr>chunks := chunks st @
              [new_chunk K (id_counter st) section_name (current_chunk st)
                 (int n - int (length (current_chunk st))) (int n - 1)],
           id_counter := id_counter st + 1\<rparr>
      else st)"

text \<open>
  One round of the outer loop, after \<open>identify_clauses\<close>: the buffer is reset, the
  clauses are packed, the rest is flushed.
\<close>

definition pack_section :: "chunker \<Rightarrow> pystr \<Rightarrow> pystr list \<Rightarrow> pack_state \<Rightarrow> pack_state" where
  "pack_section K section_name clauses st =
     flush K section_name (length clauses)
       (pack_loop K section_name 0 clauses (st\<lparr>current_chunk := [], current_tokens := 0\<rparr>))"


subsection \<open>\<open>split_into_sections\<close>\<close>

datatype py_error = FileNotFoundError | AttributeError | ZeroDivisionError | IndexError

text \<open>
  The pattern \<open>(### SECTION: [^#]+###)\<close> at the start of \<open>t\<close>: the greedy class takes
  the whole run of characters other than \<open>#\<close> (35), and no shorter run can be followed
  by \<open>###\<close>. The result is the matched text and what follows it.
\<close>

definition match_marker :: "pystr \<Rightarrow> (pystr \<times> pystr) option" where
  "match_marker t =
     (if startswith t (ustr ''### SECTION: '') then
        let r = drop 13 t; body = takeWhile (\<lambda>c. c \<noteq> 35) r; after = dropWhile (\<lambda>c. c \<noteq> 35) r
        in if body \<noteq> [] \<and> startswith after (ustr ''###'')
           then Some (ustr ''### SECTION: '' @ body @ ustr ''###'', drop 3 after)
           else None
      else None)"

text \<open>
  \<open>re.split\<close> with that pattern, whose one group keeps the markers in the result:
  \<open>acc\<close> is the text read since the last match.
\<close>

function re_split_markers :: "pystr \<Rightarrow> pystr \<Rightarrow> pystr list" where
  "re_split_markers acc [] = [acc]"
| "re_split_markers acc (c # cs) =
     (case match_marker (c # cs) of
        Some (m, r) \<Rightarrow> acc # m # re_split_markers [] r
      | None \<Rightarrow> re_split_markers (acc @ [c]) cs)"
  by pat_completeness auto
termination
proof (relation "measure (\<lambda>(acc, t). length t)")
  fix acc :: pystr and c cs x2 m r
  assume a: "match_marker (c # cs) = Some x2" "(m, r) = x2"
  then have "r = drop 3 (dropWhile (\<lambda>c. c \<noteq> 35) (drop 13 (c # cs)))"
    by (auto simp: match_marker_def Let_def split: if_splits)
  moreover have "length (dropWhile (\<lambda>c. c \<noteq> 35) (drop 13 (c # cs))) \<le> length (drop 13 (c # cs))"
    by (rule length_dropWhile_le)
  ultimately show "((([], r)), (acc, c # cs)) \<in> measure (\<lambda>(acc, t). length t)"
    by auto
qed auto

text \<open>
  \<open>re.search(r'### SECTION: (.+?) ###', part)\<close>. \<open>lazy_name\<close> is the lazy group
  followed by \<open> ###\<close>: one more character other than a newline (10) at a time, until
  \<open> ###\<close> follows. The search tries every start from the left; \<open>None\<close> is no match.
\<close>

fun lazy_name :: "pystr \<Rightarrow> pystr \<Rightarrow> pystr option" where
  "lazy_name acc [] = None"
| "lazy_name acc (c # cs) =
     (if c = 10 then None
      else if startswith cs (ustr '' ###'') then Some (acc @ [c])
      else lazy_name (acc @ [c]) cs)"

fun search_section_name :: "pystr \<Rightarrow> pystr option" where
  "search_section_name [] = None"
| "search_section_name (c # cs) =
     (case (if startswith (c # cs) (ustr ''### SECTION: '')
            then lazy_name [] (drop 13 (c # cs)) else None) of
        Some n \<Rightarrow> Some n
      | None \<Rightarrow> search_section_name cs)"

text \<open>
  The loop over the parts; the state is \<open>sections\<close>, \<open>current_section\<close> and
  \<open>current_text\<close>. \<open>.group(1)\<close> on no match is an \<open>AttributeError\<close>.
\<close>

fun sections_loop ::
  "pystr list \<Rightarrow> section_data list \<times> pystr \<times> pystr \<Rightarrow> py_error + section_data list \<times> pystr \<times> pystr"
where
  "sections_loop [] st = Inr st"
| "sections_loop (part # parts) (sections, current_section, current_text) =
     (if startswith part (ustr ''### SECTION:'') then
        let sections' =
              (if strip current_text \<noteq> []
               then sections @ [\<lparr>sec_section = current_section, sec_text = strip current_text\<rparr>]
               else sections)
        in case search_section_name part of
             None \<Rightarrow> Inl AttributeError
           | Some n \<Rightarrow> sections_loop parts (sections', n, [])
      else sections_loop parts (sections, current_section, current_text @ part))"

definition split_into_sections :: "pystr \<Rightarrow> py_error + section_data list" where
  "split_into_sections t =
     (case sections_loop (re_split_markers [] t) ([], ustr ''Introduction'', []) of
        Inl e \<Rightarrow> Inl e
      | Inr (sections, current_section, current_text) \<Rightarrow>
          Inr (if strip current_text \<noteq> []
               then sections @ [\<lparr>sec_section = current_section, sec_text = strip current_text\<rparr>]
               else sections))"

subsection \<open>\<open>identify_clauses\<close>\<close>

text \<open>
  \<open>re.split(r'\n(?=X)', text)\<close>: the text is cut at every newline that \<open>X\<close> follows,
  and the newline is dropped. \<open>ahead\<close> says whether \<open>X\<close> matches at the start of its
  argument.
\<close>

fun split_newline_before :: "(pystr \<Rightarrow> bool) \<Rightarrow> pystr \<Rightarrow> pystr \<Rightarrow> pystr list" where
  "split_newline_before ahead acc [] = [acc]"
| "split_newline_before ahead acc (c # cs) =
     (if c = 10 \<and> ahead cs then acc # split_newline_before ahead [] cs
      else split_newline_before ahead (acc @ [c]) cs)"

text \<open>\<open>Age / SI|Indiv\.|2A\n\<close>\<close>

definition table_row_ahead :: "pystr \<Rightarrow> bool" where
  "table_row_ahead t =
     (startswith t (ustr ''Age / SI'') \<or> startswith t (ustr ''Indiv.'') \<or> startswith t (ustr ''2A'' @ [10]))"

text \<open>\<open>\d+\.\<close>: one or more digits, then a full stop (46).\<close>

fun digits_dot :: "(nat \<Rightarrow> bool) \<Rightarrow> pystr \<Rightarrow> bool" where
  "digits_dot d [] = False"
| "digits_dot d (c # cs) = (d c \<and> (startswith cs [46] \<or> digits_dot d cs))"

text \<open>The bullet U+2022 (8226), or \<open>\d+\.\<close>\<close>

definition item_ahead :: "chunker \<Rightarrow> pystr \<Rightarrow> bool" where
  "item_ahead K t = (startswith t [8226] \<or> digits_dot (re_digit K) t)"

text \<open>
  \<open>re.split(r'(?<=[.!?])\s+(?=[A-Z])', part)\<close>: a match starts at a whitespace character
  that follows \<open>.\<close>, \<open>!\<close> or \<open>?\<close>, takes the whole run of whitespace, and needs a
  capital letter after the run. The character before the position is the last of
  \<open>acc\<close>; where \<open>acc\<close> is empty it is the start of the text or the whitespace of the
  match before, and the look-behind fails.
\<close>

definition sentence_end :: "nat \<Rightarrow> bool" where
  "sentence_end c = (c = 46 \<or> c = 33 \<or> c = 63)"

definition upper_AZ :: "nat \<Rightarrow> bool" where
  "upper_AZ c = (65 \<le> c \<and> c \<le> 90)"

function split_sentences :: "pystr \<Rightarrow> pystr \<Rightarrow> pystr list" where
  "split_sentences acc [] = [acc]"
| "split_sentences acc (c # cs) =
     (let r = dropWhile isspace cs in
      if acc \<noteq> [] \<and> sentence_end (last acc) \<and> isspace c \<and> r \<noteq> [] \<and> upper_AZ (hd r)
      then acc # split_sentences [] r
      else split_sentences (acc @ [c]) cs)"
  by pat_completeness auto
termination
  by (relation "measure (\<lambda>(acc, t). length t)")
     (auto simp: less_Suc_eq_le length_dropWhile_le)

definition has_marker :: "pystr \<Rightarrow> bool" where
  "has_marker t = (contains t (ustr ''PREMIUM CHART'') \<or> contains t (ustr ''PREMIUM TABLE''))"

definition identify_clauses :: "chunker \<Rightarrow> pystr \<Rightarrow> pystr list" where
  "identify_clauses K t =
     (if has_marker t then
        filter (\<lambda>p. p \<noteq> []) (map strip (split_newline_before table_row_ahead [] t))
      else
        concat (map (\<lambda>p. let part = strip p in
                          if part = [] then []
                          else if int (count_tokens K part) > target_size K
                               then split_sentences [] part
                               else [part])
                    (split_newline_before (item_ahead K) [] t)))"

subsection \<open>\<open>create_chunks\<close>, \<open>filter_premium_tables\<close>, \<open>save_chunks\<close>, \<open>chunk\<close>\<close>

fun sections_fold :: "chunker \<Rightarrow> section_data list \<Rightarrow> pack_state \<Rightarrow> pack_state" where
  "sections_fold K [] st = st"
| "sections_fold K (section_data # rest) st =
     sections_fold K rest
       (pack_section K (sec_section section_data)
          (identify_clauses K (sec_text section_data)) st)"

definition create_chunks :: "chunker \<Rightarrow> section_data list \<Rightarrow> chunk list" where
  "create_chunks K sections =
     chunks (sections_fold K sections
       \<lparr>chunks = [], id_counter = 0, current_chunk = [], current_tokens = 0\<rparr>)"

definition filter_premium_tables :: "chunk list \<Rightarrow> chunk list" where
  "filter_premium_tables cs =
     map (\<lambda>c. if contains (chunk_text c) (ustr ''PREMIUM TABLE'')
                  \<or> contains (chunk_text c) (ustr ''PREMIUM CHART'')
               then c\<lparr>is_premium_table := Some True\<rparr>
               else c\<lparr>is_premium_table := Some False\<rparr>) cs"

text \<open>
  \<open>save_chunks\<close> writes the file and then prints statistics, among them
  \<open>total_tokens / len(chunks)\<close>. \<open>Inr\<close> is the content of the file after a normal
  return.
\<close>

definition save_chunks :: "chunk list \<Rightarrow> py_error + chunk list" where
  "save_chunks cs = (if length cs = 0 then Inl ZeroDivisionError else Inr cs)"

text \<open>
  \<open>chunk\<close>, the whole run. Its argument is the content of the input file, \<open>None\<close> when
  the file does not exist.
\<close>

definition chunk :: "chunker \<Rightarrow> pystr option \<Rightarrow> py_error + chunk list" where
  "chunk K input =
     (case input of
        None \<Rightarrow> Inl FileNotFoundError
      | Some t \<Rightarrow>
          (case split_into_sections t of
             Inl e \<Rightarrow> Inl e
           | Inr sections \<Rightarrow> save_chunks (filter_premium_tables (create_chunks K sections))))"


section \<open>The embedding generator (scripts/embed_generator.py)\<close>

text \<open>
  The elements of a vector are floats; nothing here computes with them, so their type
  is a parameter. The keys \<open>section\<close>, \<open>text\<close>, \<open>token_count\<close> and
  \<open>is_premium_table\<close> of a record are the fields with the prefix \<open>emb_\<close>.
\<close>

record 'f embedding_record =
  emb_chunk_id :: pystr
  emb_section :: pystr
  emb_text :: pystr
  emb_token_count :: nat
  embedding :: "'f list"
  embedding_dim :: nat
  emb_is_premium_table :: bool
  priority :: pystr

text \<open>
  The provider is outside the repository. \<open>client n t\<close> is the outcome of the call
  number \<open>n\<close> (from 0) of \<open>embed_content\<close> followed by \<open>.embeddings[0].values\<close>, on the
  text \<open>t\<close>: \<open>None\<close> when anything raises. \<open>generate_embedding\<close> catches every
  exception and returns \<open>None\<close> then.
\<close>

type_synonym 'f provider = "nat \<Rightarrow> pystr \<Rightarrow> 'f list option"

definition generate_embedding :: "'f provider \<Rightarrow> nat \<Rightarrow> pystr \<Rightarrow> 'f list option" where
  "generate_embedding client n t = (case client n t of Some v \<Rightarrow> Some v | None \<Rightarrow> None)"

text \<open>\<open>chunk.get('is_premium_table', False)\<close>\<close>

definition get_is_premium_table :: "chunk \<Rightarrow> bool" where
  "get_is_premium_table c = (case is_premium_table c of Some b \<Rightarrow> b | None \<Rightarrow> False)"

text \<open>
  The loop of \<open>generate_all_embeddings\<close>: \<open>embeddings_data\<close> is the records so far,
  \<open>calls\<close> the number of calls made to the provider. \<open>if embedding:\<close> is false for
  \<open>None\<close> and for an empty sequence.
\<close>

fun embed_loop ::
  "bool \<Rightarrow> 'f provider \<Rightarrow> chunk list \<Rightarrow> 'f embedding_record list \<times> nat \<Rightarrow> 'f embedding_record list \<times> nat"
where
  "embed_loop skip_premium_tables client [] st = st"
| "embed_loop skip_premium_tables client (c # cs) (embeddings_data, calls) =
     (if skip_premium_tables \<and> get_is_premium_table c then
        embed_loop skip_premium_tables client cs (embeddings_data, calls)
      else
        case generate_embedding client calls (chunk_text c) of
          None \<Rightarrow> embed_loop skip_premium_tables client cs (embeddings_data, Suc calls)
        | Some e \<Rightarrow>
            if e \<noteq> [] then
              embed_loop skip_premium_tables client cs
                (embeddings_data @
                   [\<lparr>emb_chunk_id = chunk_id c,
                     emb_section = chunk_section c,
                     emb_text = chunk_text c,
                     emb_token_count = token_count c,
                     embedding = e,
                     embedding_dim = length e,
                     emb_is_premium_table = get_is_premium_table c,
                     priority = (if get_is_premium_table c then ustr ''low'' else ustr ''high'')\<rparr>],
                 Suc calls)
            else embed_loop skip_premium_tables client cs (embeddings_data, Suc calls))"

definition generate_all_embeddings ::
  "bool \<Rightarrow> 'f provider \<Rightarrow> chunk list \<Rightarrow> 'f embedding_record list" where
  "generate_all_embeddings skip_premium_tables client cs =
     fst (embed_loop skip_premium_tables client cs ([], 0))"


section \<open>Notions used to state the properties\<close>

text \<open>A chunk whose stored count is the count of its own text.\<close>

definition faithful :: "chunker \<Rightarrow> chunk \<Rightarrow> bool" where
  "faithful K c = (token_count c = count_tokens K (chunk_text c))"

text \<open>
  A small configuration for concrete runs: one token for each character, a target of
  20 tokens, overlap on, ASCII digits.
\<close>

definition example_chunker :: chunker where
  "example_chunker =
     \<lparr>target_size = 20, overlap = 100, count_tokens = length,
      re_digit = (\<lambda>c. 48 \<le> c \<and> c \<le> 57)\<rparr>"

definition example_sections :: "section_data list" where
  "example_sections =
     [\<lparr>sec_section = ustr ''Intro'', sec_text = ustr ''Cover starts at once.''\<rparr>]"


section \<open>Evaluating concrete runs\<close>

lemma str_nat_digit: "n < 10 \<Longrightarrow> str_nat n = [48 + n]"
  by (simp add: str_nat.simps)

lemma fmt_04d_digit: "n < 10 \<Longrightarrow> fmt_04d n = [48, 48, 48, 48 + n]"
  by (simp add: fmt_04d_def str_nat_digit numeral_3_eq_3)

lemmas run_simps =
  identify_clauses_def example_chunker_def example_sections_def has_marker_def
  startswith_def ustr_def strip_def isspace_def item_ahead_def table_row_ahead_def
  create_chunks_def pack_section_def pack_step_def flush_def closes_def new_chunk_def
  Let_def fmt_04d_digit str_int_def str_nat_digit sentence_end_def upper_AZ_def


section \<open>Token counts\<close>

lemma new_chunk_faithful: "faithful K (new_chunk K cid nm buf lo hi)"
  by (simp add: faithful_def new_chunk_def Let_def)

lemma pack_step_faithful:
  "list_all (faithful K) (chunks st) \<Longrightarrow> list_all (faithful K) (chunks (pack_step K nm i c st))"
  by (simp add: pack_step_def Let_def new_chunk_faithful)

lemma pack_loop_faithful:
  "list_all (faithful K) (chunks st) \<Longrightarrow> list_all (faithful K) (chunks (pack_loop K nm i cs st))"
  by (induction cs arbitrary: i st) (simp_all add: pack_step_faithful)

lemma flush_faithful:
  "list_all (faithful K) (chunks st) \<Longrightarrow> list_all (faithful K) (chunks (flush K nm n st))"
  by (simp add: flush_def new_chunk_faithful)

lemma pack_section_faithful:
  "list_all (faithful K) (chunks st) \<Longrightarrow> list_all (faithful K) (chunks (pack_section K nm cs st))"
  unfolding pack_section_def
  by (rule flush_faithful, rule pack_loop_faithful) simp

lemma sections_fold_faithful:
  "list_all (faithful K) (chunks st) \<Longrightarrow> list_all (faithful K) (chunks (sections_fold K secs st))"
  by (induction secs arbitrary: st) (simp_all add: pack_section_faithful)

lemma create_chunks_faithful: "list_all (faithful K) (create_chunks K secs)"
  unfolding create_chunks_def by (rule sections_fold_faithful) simp

lemma filter_premium_tables_faithful:
  "list_all (faithful K) cs \<Longrightarrow> list_all (faithful K) (filter_premium_tables cs)"
  by (induction cs) (simp_all add: filter_premium_tables_def faithful_def)

text \<open>
  C3. Every chunk that \<open>create_chunks\<close> produces, closed in the middle of a section
  or flushed at its end, and every chunk after \<open>filter_premium_tables\<close>, stores as
  \<open>token_count\<close> the count that the tokenizer of the packing decisions gives for the
  chunk's own \<open>text\<close>.
\<close>

theorem token_count_fidelity:
  "c \<in> set (create_chunks K sections) \<or> c \<in> set (filter_premium_tables (create_chunks K sections))
   \<Longrightarrow> token_count c = count_tokens K (chunk_text c)"
  using create_chunks_faithful[of K sections]
    filter_premium_tables_faithful[OF create_chunks_faithful[of K sections]]
  by (auto simp: list_all_iff faithful_def)

theorem token_count_fidelity_witness:
  "hd (create_chunks example_chunker example_sections)
     \<in> set (create_chunks example_chunker example_sections)
   \<and> token_count (hd (create_chunks example_chunker example_sections)) = 21
   \<and> count_tokens example_chunker
       (chunk_text (hd (create_chunks example_chunker example_sections))) = 21"
proof -
  have m: "hd (create_chunks example_chunker example_sections)
             \<in> set (create_chunks example_chunker example_sections)"
    by (simp add: run_simps)
  have t: "token_count (hd (create_chunks example_chunker example_sections)) = 21"
    by (simp add: run_simps)
  from m have "hd (create_chunks example_chunker example_sections)
                 \<in> set (create_chunks example_chunker example_sections)
               \<or> hd (create_chunks example_chunker example_sections)
                 \<in> set (filter_premium_tables (create_chunks example_chunker example_sections))"
    by (rule disjI1)
  from token_count_fidelity[OF this] m t show ?thesis by simp
qed

section \<open>Failures of the chunker\<close>

text \<open>
  C8. The claim is that the chunker fails only when its input file is missing. On an
  input file that exists and is empty there is no section and no chunk, and
  \<open>save_chunks\<close> divides by \<open>len(chunks)\<close>: the run ends in a \<open>ZeroDivisionError\<close>.
\<close>

theorem chunk_empty_input_raises: "chunk K (Some []) = Inl ZeroDivisionError"
  by (simp add: chunk_def split_into_sections_def strip_def create_chunks_def
        filter_premium_tables_def save_chunks_def startswith_def ustr_def)
end
